theory Spec2Isabelle
  imports Complex_Main "HOL-Library.Multiset"
begin

section \<open>Data model of \<open>data_modules/not_dali.py\<close>\<close>

text \<open>
  The module is configuration code over torchvision (transforms, dataset classes),
  torch (DataLoader) and scikit-learn (\<open>train_test_split\<close>). The library objects are
  modelled by the constructor calls the module makes: a transform is the call that built
  it, a dataset object is its class with the arguments it was built from, a loader is the
  record of its keyword arguments. What the libraries read from outside the program (the
  folder tree, the archives on disk, the global random generator) is a \<open>world\<close> the
  functions take as an argument.
\<close>

type_synonym path = string
type_synonym label = int
type_synonym sample = "path \<times> label"

text \<open>Exceptions the module can end with. \<open>assert c\<close> raises \<open>AssertionError\<close> with no
  message, \<open>assert c, m\<close> with message \<open>m\<close>. \<open>LibraryError\<close> stands for whatever a
  library call raises (missing files, failed download, a split sklearn refuses).\<close>

datatype error =
    AssertionError "string option"
  | AttributeError string
  | KeyError string
  | UnboundLocalError string
  | LibraryError string

subsection \<open>Transforms\<close>

datatype size_arg = Side nat | HW nat nat

datatype transform =
    RandomResizedCrop nat "real \<times> real"
  | RandomHorizontalFlip
  | ToTensor
  | Normalize "real \<times> real \<times> real" "real \<times> real \<times> real"
  | Resize size_arg
  | CenterCrop nat

datatype pipeline = Compose "transform list"

text \<open>\<open>build_custom_pipeline\<close>: a dict with the keys \<open>T_train\<close> and \<open>T_val\<close>.\<close>

definition build_custom_pipeline :: "(string \<times> pipeline) list" where
  "build_custom_pipeline =
     [(''T_train'', Compose
         [RandomResizedCrop 224 (0.08, 1.0),
          RandomHorizontalFlip,
          ToTensor,
          Normalize (0.485, 0.456, 0.406) (0.228, 0.224, 0.225)]),
      (''T_val'', Compose
         [Resize (Side 256),
          CenterCrop 224,
          ToTensor,
          Normalize (0.485, 0.456, 0.406) (0.228, 0.224, 0.225)])]"

definition cifar_pipeline :: "(string \<times> pipeline) list" where
  "cifar_pipeline =
     [(''T_train'', Compose
         [RandomResizedCrop 32 (0.08, 1.0),
          RandomHorizontalFlip,
          ToTensor,
          Normalize (0.4914, 0.4822, 0.4465) (0.247, 0.243, 0.261)]),
      (''T_val'', Compose
         [ToTensor,
          Normalize (0.4914, 0.4822, 0.4465) (0.247, 0.243, 0.261)])]"

definition stl_pipeline :: "(string \<times> pipeline) list" where
  "stl_pipeline =
     [(''T_train'', Compose
         [RandomResizedCrop 96 (0.08, 1.0),
          RandomHorizontalFlip,
          ToTensor,
          Normalize (0.4914, 0.4823, 0.4466) (0.247, 0.243, 0.261)]),
      (''T_val'', Compose
         [Resize (HW 96 96),
          ToTensor,
          Normalize (0.4914, 0.4823, 0.4466) (0.247, 0.243, 0.261)])]"

definition imagenet_pipeline :: "(string \<times> pipeline) list" where
  "imagenet_pipeline =
     [(''T_train'', Compose
         [RandomResizedCrop 224 (0.08, 1.0),
          RandomHorizontalFlip,
          ToTensor,
          Normalize (0.485, 0.456, 0.406) (0.228, 0.224, 0.225)]),
      (''T_val'', Compose
         [Resize (Side 256),
          CenterCrop 224,
          ToTensor,
          Normalize (0.485, 0.456, 0.406) (0.228, 0.224, 0.225)])]"

definition imagenet32_pipeline :: "(string \<times> pipeline) list" where
  "imagenet32_pipeline =
     [(''T_train'', Compose
         [RandomResizedCrop 32 (0.08, 1.0),
          RandomHorizontalFlip,
          ToTensor,
          Normalize (0.4914, 0.4822, 0.4465) (0.247, 0.243, 0.261)]),
      (''T_val'', Compose
         [Resize (Side 256),
          CenterCrop 224,
          Resize (Side 32),
          ToTensor,
          Normalize (0.4914, 0.4822, 0.4465) (0.247, 0.243, 0.261)])]"

definition custom_pipeline :: "(string \<times> pipeline) list" where
  "custom_pipeline = build_custom_pipeline"

definition pipelines :: "(string \<times> (string \<times> pipeline) list) list" where
  "pipelines =
     [(''cifar10'', cifar_pipeline),
      (''cifar100'', cifar_pipeline),
      (''stl10'', stl_pipeline),
      (''imagenet100'', imagenet_pipeline),
      (''imagenet'', imagenet_pipeline),
      (''custom'', custom_pipeline),
      (''imagenet32'', imagenet32_pipeline)]"

text \<open>\<open>d[k]\<close> on a dict: \<open>KeyError\<close> when the key is absent.\<close>

definition getitem :: "(string \<times> 'v) list \<Rightarrow> string \<Rightarrow> error + 'v" where
  "getitem d k = (case map_of d k of None \<Rightarrow> Inl (KeyError k) | Some v \<Rightarrow> Inr v)"

text \<open>\<open>prepare_transforms\<close> (lines 69 to 170): the assertion on the name, then the two
  lookups in the chosen pipeline.\<close>

definition prepare_transforms :: "string \<Rightarrow> error + (pipeline \<times> pipeline)" where
  "prepare_transforms dataset =
     (if map_of pipelines dataset = None then Inl (AssertionError None)
      else case getitem pipelines dataset of
             Inl e \<Rightarrow> Inl e
           | Inr pipeline \<Rightarrow>
               (case getitem pipeline ''T_train'' of
                  Inl e \<Rightarrow> Inl e
                | Inr T_train \<Rightarrow>
                    (case getitem pipeline ''T_val'' of
                       Inl e \<Rightarrow> Inl e
                     | Inr T_val \<Rightarrow> Inr (T_train, T_val))))"

subsection \<open>Dataset objects\<close>

text \<open>The dataset classes the module instantiates. \<open>vars(torchvision.datasets)\<close> is the
  namespace of torchvision's dataset classes; of its entries only the two that
  \<open>dataset.upper()\<close> can reach after the assertion are listed.\<close>

datatype archive_class = CIFAR10 | CIFAR100

definition torchvision_datasets :: "(string \<times> archive_class) list" where
  "torchvision_datasets = [(''CIFAR10'', CIFAR10), (''CIFAR100'', CIFAR100)]"

definition upper_char :: "char \<Rightarrow> char" where
  "upper_char c =
     (let n = (of_char c :: nat) in if 97 \<le> n \<and> n \<le> 122 then char_of (n - 32) else c)"

definition upper :: "string \<Rightarrow> string" where
  "upper s = map upper_char s"

text \<open>A dataset object is the class and the arguments of the call that built it. Only the
  folder-per-class class keeps a list \<open>samples\<close> of (file, label) pairs: torchvision's
  CIFAR classes keep \<open>data\<close> and \<open>targets\<close>, STL10 keeps \<open>data\<close> and \<open>labels\<close>.\<close>

datatype dataset =
    CIFAR archive_class path bool bool pipeline
  | STL10 path string bool pipeline
  | ImageFolder path pipeline "sample list"

text \<open>Reading the attribute \<open>samples\<close> of a dataset object.\<close>

fun getattr_samples :: "dataset \<Rightarrow> error + sample list" where
  "getattr_samples (ImageFolder root_dir T samples) = Inr samples"
| "getattr_samples (CIFAR cls root_dir train download T) = Inl (AttributeError ''samples'')"
| "getattr_samples (STL10 root_dir split download T) = Inl (AttributeError ''samples'')"

text \<open>\<open>len(dataset)\<close> of a folder-per-class dataset is the length of \<open>samples\<close>.\<close>

fun samples_of :: "dataset \<Rightarrow> sample list" where
  "samples_of (ImageFolder root_dir T samples) = samples"
| "samples_of (CIFAR cls root_dir train download T) = []"
| "samples_of (STL10 root_dir split download T) = []"

subsection \<open>The world outside the program\<close>

text \<open>
  \<^item> \<open>sandbox_folder\<close>: \<open>dirname(dirname(realpath(__file__)))\<close>;
  \<^item> \<open>cifar_loads cls root_dir train download\<close>, \<open>stl10_loads root_dir split download\<close>: whether the
    constructor of the archive-backed class returns (the archive is there, or the download
    it is allowed to make succeeds);
  \<^item> \<open>image_tree root_dir\<close>: the (file, label) list \<open>ImageFolder\<close> finds under \<open>root_dir\<close>, \<open>None\<close>
    when it raises;
  \<^item> \<open>global_rng\<close>: the state of numpy's global random generator.
\<close>

record world =
  sandbox_folder :: path
  cifar_loads :: "archive_class \<Rightarrow> path \<Rightarrow> bool \<Rightarrow> bool \<Rightarrow> bool"
  stl10_loads :: "path \<Rightarrow> string \<Rightarrow> bool \<Rightarrow> bool"
  image_tree :: "path \<Rightarrow> sample list option"
  global_rng :: nat

definition new_CIFAR ::
  "world \<Rightarrow> archive_class \<Rightarrow> path \<Rightarrow> bool \<Rightarrow> bool \<Rightarrow> pipeline \<Rightarrow> error + dataset" where
  "new_CIFAR w cls root_dir train download T =
     (if cifar_loads w cls root_dir train download then Inr (CIFAR cls root_dir train download T)
      else Inl (LibraryError ''CIFAR''))"

definition new_STL10 :: "world \<Rightarrow> path \<Rightarrow> string \<Rightarrow> bool \<Rightarrow> pipeline \<Rightarrow> error + dataset" where
  "new_STL10 w root_dir split download T =
     (if stl10_loads w root_dir split download then Inr (STL10 root_dir split download T)
      else Inl (LibraryError ''STL10''))"

definition new_ImageFolder :: "world \<Rightarrow> path \<Rightarrow> pipeline \<Rightarrow> error + dataset" where
  "new_ImageFolder w root_dir T =
     (case image_tree w root_dir of
        None \<Rightarrow> Inl (LibraryError ''ImageFolder'')
      | Some samples \<Rightarrow> Inr (ImageFolder root_dir T samples))"

subsection \<open>The stratified split of scikit-learn\<close>

text \<open>
  \<open>train_test_split(*arrays, train_size, stratify, random_state)\<close> draws two lists of
  indices, for the train and the test part, and indexes every array with them. The
  drawing is a parameter \<open>sk\<close> of the model: it gets the random generator, the number of
  samples, \<open>train_size\<close> and the \<open>stratify\<close> labels, and returns \<open>None\<close> when sklearn
  raises (a class with one member, a part smaller than the number of classes). With
  \<open>random_state\<close> an integer the generator is a fresh one seeded with it; with \<open>None\<close>
  it is numpy's global one.
\<close>

datatype rng = RandomState int | GlobalRandomState nat

type_synonym splitter = "rng \<Rightarrow> nat \<Rightarrow> real \<Rightarrow> label list \<Rightarrow> (nat list \<times> nat list) option"

definition check_random_state :: "world \<Rightarrow> int option \<Rightarrow> rng" where
  "check_random_state w random_state =
     (case random_state of None \<Rightarrow> GlobalRandomState (global_rng w) | Some seed \<Rightarrow> RandomState seed)"

definition train_test_split ::
  "splitter \<Rightarrow> world \<Rightarrow> 'a list \<Rightarrow> 'b list \<Rightarrow> real \<Rightarrow> label list \<Rightarrow> int option
     \<Rightarrow> error + ('a list \<times> 'a list \<times> 'b list \<times> 'b list)" where
  "train_test_split sk w xs ys train_size stratify random_state =
     (let n = length xs in
      if length ys = n \<and> length stratify = n then
        (case sk (check_random_state w random_state) n train_size stratify of
           None \<Rightarrow> Inl (LibraryError ''train_test_split'')
         | Some (train, test) \<Rightarrow>
             if list_all (\<lambda>i. i < n) (train @ test)
             then Inr (map ((!) xs) train, map ((!) xs) test,
                       map ((!) ys) train, map ((!) ys) test)
             else Inl (LibraryError ''train_test_split''))
      else Inl (LibraryError ''train_test_split''))"

subsection \<open>Loaders\<close>

text \<open>A \<open>DataLoader\<close> is the record of the arguments it was built with. An omitted
  \<open>shuffle\<close> is the library's default, no shuffling.\<close>

record DataLoader =
  dl_dataset :: dataset
  batch_size :: int
  shuffle :: bool
  num_workers :: int
  pin_memory :: bool
  drop_last :: bool

definition new_DataLoader ::
  "dataset \<Rightarrow> int \<Rightarrow> bool option \<Rightarrow> int \<Rightarrow> bool \<Rightarrow> bool \<Rightarrow> DataLoader" where
  "new_DataLoader ds bs sh nw pin dl =
     \<lparr>dl_dataset = ds, batch_size = bs,
      shuffle = (case sh of None \<Rightarrow> False | Some b \<Rightarrow> b),
      num_workers = nw, pin_memory = pin, drop_last = dl\<rparr>"

text \<open>Modelled from the spec: the batching of torch's \<open>DataLoader\<close>, which is not code of
  this module. The spec's words: the loader yields batches of the configured size; with
  drop-last the final batch smaller than the configured size is discarded, without it the
  final batch is retained. \<open>loader_batch_sizes L n\<close> is the list of the sizes of the
  batches of one pass over a dataset of \<open>n\<close> samples.\<close>

definition loader_batch_sizes :: "DataLoader \<Rightarrow> nat \<Rightarrow> nat list" where
  "loader_batch_sizes L n =
     (let b = nat (batch_size L); full = replicate (n div b) b; r = n mod b
      in if r = 0 \<or> drop_last L then full else full @ [r])"

section \<open>The functions of the module\<close>

text \<open>\<open>prepare_dataloaders\<close> (lines 38 to 67).\<close>

definition prepare_dataloaders :: "dataset \<Rightarrow> dataset \<Rightarrow> int \<Rightarrow> int \<Rightarrow> DataLoader \<times> DataLoader" where
  "prepare_dataloaders train_dataset val_dataset bs nw =
     (let train_loader = new_DataLoader train_dataset bs (Some True) nw True True;
          val_loader = new_DataLoader val_dataset bs None nw True False
      in (train_loader, val_loader))"

text \<open>The names the builder accepts (line 210) and the three branches of its dispatch
  (lines 212, 228, 242).\<close>

definition recognized_names :: "string list" where
  "recognized_names =
     [''cifar10'', ''cifar100'', ''stl10'', ''imagenet'', ''imagenet100'', ''custom'', ''imagenet32'']"

definition cifar_names :: "string list" where
  "cifar_names = [''cifar10'', ''cifar100'']"

definition folder_names :: "string list" where
  "folder_names = [''imagenet'', ''imagenet100'', ''custom'', ''imagenet32'']"

definition default_path :: "world \<Rightarrow> path option \<Rightarrow> path" where
  "default_path w p = (case p of None \<Rightarrow> sandbox_folder w @ ''/datasets'' | Some q \<Rightarrow> q)"

text \<open>Lines 212 to 244 of \<open>prepare_datasets\<close>: the construction of the two dataset
  objects, the training one first. A name that no branch takes leaves \<open>train_dataset\<close>
  unbound; the assertion before the dispatch excludes it.\<close>

definition construct_datasets ::
  "world \<Rightarrow> string \<Rightarrow> pipeline \<Rightarrow> pipeline \<Rightarrow> path \<Rightarrow> path \<Rightarrow> bool \<Rightarrow> error + (dataset \<times> dataset)" where
  "construct_datasets w dataset T_train T_val train_data_path val_data_path download =
     (if dataset \<in> set cifar_names then
        (case getitem torchvision_datasets (upper dataset) of
           Inl e \<Rightarrow> Inl e
         | Inr DatasetClass \<Rightarrow>
             (case new_CIFAR w DatasetClass train_data_path True download T_train of
                Inl e \<Rightarrow> Inl e
              | Inr train_dataset \<Rightarrow>
                  (case new_CIFAR w DatasetClass val_data_path False download T_val of
                     Inl e \<Rightarrow> Inl e
                   | Inr val_dataset \<Rightarrow> Inr (train_dataset, val_dataset))))
      else if dataset = ''stl10'' then
        (case new_STL10 w train_data_path ''train'' True T_train of
           Inl e \<Rightarrow> Inl e
         | Inr train_dataset \<Rightarrow>
             (case new_STL10 w val_data_path ''test'' download T_val of
                Inl e \<Rightarrow> Inl e
              | Inr val_dataset \<Rightarrow> Inr (train_dataset, val_dataset)))
      else if dataset \<in> set folder_names then
        (case new_ImageFolder w train_data_path T_train of
           Inl e \<Rightarrow> Inl e
         | Inr train_dataset \<Rightarrow>
             (case new_ImageFolder w val_data_path T_val of
                Inl e \<Rightarrow> Inl e
              | Inr val_dataset \<Rightarrow> Inr (train_dataset, val_dataset)))
      else Inl (UnboundLocalError ''train_dataset''))"

text \<open>Lines 246 to 257: the subsampling of the training dataset. The (file, label) list
  is read from the attribute \<open>samples\<close>, split with \<open>train_size = data_fraction\<close>,
  \<open>stratify = labels\<close> and \<open>random_state = 42\<close>, and the zipped train part is stored back in
  the attribute of the same object.\<close>

definition fraction_message :: string where
  "fraction_message = ''Only use data_fraction for values smaller than 1.''"

definition subsample ::
  "splitter \<Rightarrow> world \<Rightarrow> dataset \<Rightarrow> real \<Rightarrow> error + dataset" where
  "subsample sk w train_dataset data_fraction =
     (if \<not> data_fraction < 1 then Inl (AssertionError (Some fraction_message))
      else case getattr_samples train_dataset of
             Inl e \<Rightarrow> Inl e
           | Inr data \<Rightarrow>
               (let files = map fst data; labels = map snd data in
                case train_test_split sk w files labels data_fraction labels (Some 42) of
                  Inl e \<Rightarrow> Inl e
                | Inr (files', _, labels', _) \<Rightarrow>
                    (case train_dataset of
                       ImageFolder root_dir T _ \<Rightarrow> Inr (ImageFolder root_dir T (zip files' labels'))
                     | _ \<Rightarrow> Inr train_dataset)))"

text \<open>\<open>prepare_datasets\<close> (lines 173 to 259). \<open>data_fraction\<close> is a Python float; the
  function only compares it with 0 and 1 and hands it to the split, and these comparisons
  are exact, so it is a real number here.\<close>

definition prepare_datasets ::
  "splitter \<Rightarrow> world \<Rightarrow> string \<Rightarrow> pipeline \<Rightarrow> pipeline \<Rightarrow> path option \<Rightarrow> path option
     \<Rightarrow> string option \<Rightarrow> bool \<Rightarrow> real \<Rightarrow> error + (dataset \<times> dataset)" where
  "prepare_datasets sk w dataset T_train T_val train_data_path val_data_path data_format
       download data_fraction =
     (let train_data_path = default_path w train_data_path;
          val_data_path = default_path w val_data_path
      in if dataset \<notin> set recognized_names then Inl (AssertionError None)
         else case construct_datasets w dataset T_train T_val train_data_path val_data_path
                     download of
                Inl e \<Rightarrow> Inl e
              | Inr (train_dataset, val_dataset) \<Rightarrow>
                  if data_fraction > 0 then
                    (case subsample sk w train_dataset data_fraction of
                       Inl e \<Rightarrow> Inl e
                     | Inr train_dataset' \<Rightarrow> Inr (train_dataset', val_dataset))
                  else Inr (train_dataset, val_dataset))"

text \<open>\<open>prepare_data\<close> (lines 262 to 308).\<close>

definition prepare_data ::
  "splitter \<Rightarrow> world \<Rightarrow> string \<Rightarrow> path option \<Rightarrow> path option \<Rightarrow> string option \<Rightarrow> int \<Rightarrow> int
     \<Rightarrow> bool \<Rightarrow> real \<Rightarrow> error + (DataLoader \<times> DataLoader)" where
  "prepare_data sk w dataset train_data_path val_data_path data_format bs nw download
       data_fraction =
     (case prepare_transforms dataset of
        Inl e \<Rightarrow> Inl e
      | Inr (T_train, T_val) \<Rightarrow>
          (case prepare_datasets sk w dataset T_train T_val train_data_path val_data_path
                  data_format download data_fraction of
             Inl e \<Rightarrow> Inl e
           | Inr (train_dataset, val_dataset) \<Rightarrow>
               Inr (prepare_dataloaders train_dataset val_dataset bs nw)))"

section \<open>What a stratified split returns\<close>



section \<open>A small world to run the functions in\<close>

text \<open>Five training images in two classes, three validation images, every archive
  loadable, and a splitter that rotates the indices by a number it takes from the
  generator and cuts after \<open>floor (f * n)\<close>.\<close>

definition demo_train :: "sample list" where
  "demo_train = [(''a/0.png'', 0), (''b/0.png'', 1), (''a/1.png'', 0), (''b/1.png'', 1), (''a/2.png'', 0)]"

definition demo_val :: "sample list" where
  "demo_val = [(''a/7.png'', 0), (''b/7.png'', 1), (''b/8.png'', 1)]"

definition demo_tree :: "path \<Rightarrow> sample list option" where
  "demo_tree p =
     (if p = ''/data/train'' then Some demo_train
      else if p = ''/data/val'' then Some demo_val else None)"

definition demo_world :: "nat \<Rightarrow> world" where
  "demo_world g =
     \<lparr>sandbox_folder = ''/repo'', cifar_loads = (\<lambda>cls p train download. True),
      stl10_loads = (\<lambda>p split download. True), image_tree = demo_tree, global_rng = g\<rparr>"

fun rng_word :: "rng \<Rightarrow> nat" where
  "rng_word (RandomState seed) = nat \<bar>seed\<bar>"
| "rng_word (GlobalRandomState g) = g"

definition demo_split :: splitter where
  "demo_split r n f labels =
     (let k = nat \<lfloor>f * real n\<rfloor>; order = rotate (rng_word r) [0..<n]
      in Some (take k order, drop k order))"

definition demo_T :: pipeline where
  "demo_T = Compose [ToTensor]"

text \<open>A world with nothing on disk and no network: no archive loads, no folder is there.\<close>

definition offline_world :: world where
  "offline_world =
     \<lparr>sandbox_folder = ''/repo'', cifar_loads = (\<lambda>cls p train download. False),
      stl10_loads = (\<lambda>p split download. False), image_tree = (\<lambda>p. None), global_rng = 0\<rparr>"

section \<open>Facts about the functions\<close>

subsection \<open>The recognized names\<close>

lemma recognized_names_set:
  "set recognized_names =
     {''cifar10'', ''cifar100'', ''stl10'', ''imagenet'', ''imagenet100'', ''imagenet32'', ''custom''}"
  by (auto simp: recognized_names_def)

lemma pipelines_dom:
  "(map_of pipelines d = None) = (d \<notin> set recognized_names)"
  by (simp add: pipelines_def recognized_names_def)

lemma prepare_transforms_unrecognized:
  "d \<notin> set recognized_names \<Longrightarrow> prepare_transforms d = Inl (AssertionError None)"
  by (simp add: prepare_transforms_def pipelines_dom)

lemma prepare_transforms_recognized:
  assumes "d \<in> set recognized_names"
  shows "\<exists>p. prepare_transforms d = Inr p"
proof -
  have "d = ''cifar10'' \<or> d = ''cifar100'' \<or> d = ''stl10'' \<or> d = ''imagenet''
        \<or> d = ''imagenet100'' \<or> d = ''custom'' \<or> d = ''imagenet32''"
    using assms by (simp add: recognized_names_def)
  then show ?thesis
    by (elim disjE)
       (simp_all add: prepare_transforms_def pipelines_def getitem_def cifar_pipeline_def
          stl_pipeline_def imagenet_pipeline_def imagenet32_pipeline_def custom_pipeline_def
          build_custom_pipeline_def)
qed


subsection \<open>Which errors each step can end with\<close>

lemma new_CIFAR_not_assert: "new_CIFAR w c p t dl T \<noteq> Inl (AssertionError m)"
  by (simp add: new_CIFAR_def)

lemma new_STL10_not_assert: "new_STL10 w p s dl T \<noteq> Inl (AssertionError m)"
  by (simp add: new_STL10_def)

lemma new_ImageFolder_not_assert: "new_ImageFolder w p T \<noteq> Inl (AssertionError m)"
  by (simp add: new_ImageFolder_def split: option.split)

lemma getitem_not_assert: "getitem d k \<noteq> Inl (AssertionError m)"
  by (simp add: getitem_def split: option.split)

text \<open>Sequencing two fallible steps passes on only the errors of the steps.\<close>

lemma seq2_not:
  assumes "a \<noteq> Inl e" and "\<And>x. b x \<noteq> Inl e"
  shows "(case a of Inl e' \<Rightarrow> Inl e' | Inr x \<Rightarrow> (case b x of Inl e' \<Rightarrow> Inl e' | Inr y \<Rightarrow> Inr (x, y))) \<noteq> Inl e"
proof (cases a)
  case (Inl e')
  with assms(1) show ?thesis by simp
next
  case (Inr x)
  with assms(2)[of x] show ?thesis by (cases "b x") simp_all
qed

lemma construct_datasets_not_assert:
  "construct_datasets w d Tt Tv tp vp dl \<noteq> Inl (AssertionError m)"
proof -
  have stl: "(case new_STL10 w tp ''train'' True Tt of Inl e \<Rightarrow> Inl e
      | Inr x \<Rightarrow> (case new_STL10 w vp ''test'' dl Tv of Inl e \<Rightarrow> Inl e | Inr y \<Rightarrow> Inr (x, y)))
      \<noteq> Inl (AssertionError m)"
    by (rule seq2_not) (rule new_STL10_not_assert)+
  have fol: "(case new_ImageFolder w tp Tt of Inl e \<Rightarrow> Inl e
      | Inr x \<Rightarrow> (case new_ImageFolder w vp Tv of Inl e \<Rightarrow> Inl e | Inr y \<Rightarrow> Inr (x, y)))
      \<noteq> Inl (AssertionError m)"
    by (rule seq2_not) (rule new_ImageFolder_not_assert)+
  have cif: "(case new_CIFAR w c tp True dl Tt of Inl e \<Rightarrow> Inl e
      | Inr x \<Rightarrow> (case new_CIFAR w c vp False dl Tv of Inl e \<Rightarrow> Inl e | Inr y \<Rightarrow> Inr (x, y)))
      \<noteq> Inl (AssertionError m)" for c
    by (rule seq2_not) (rule new_CIFAR_not_assert)+
  have cif': "(case getitem torchvision_datasets (upper d) of Inl e \<Rightarrow> Inl e
      | Inr c \<Rightarrow> (case new_CIFAR w c tp True dl Tt of Inl e \<Rightarrow> Inl e
      | Inr x \<Rightarrow> (case new_CIFAR w c vp False dl Tv of Inl e \<Rightarrow> Inl e | Inr y \<Rightarrow> Inr (x, y))))
      \<noteq> Inl (AssertionError m)"
    using cif getitem_not_assert[of torchvision_datasets "upper d" m]
    by (cases "getitem torchvision_datasets (upper d)") simp_all
  show ?thesis
    unfolding construct_datasets_def using stl fol cif' by simp
qed


lemma zip_nth_fst_snd:
  "list_all (\<lambda>i. i < length data) idx \<Longrightarrow>
     zip (map ((!) (map fst data)) idx) (map ((!) (map snd data)) idx) = map ((!) data) idx"
  by (induction idx) simp_all

lemma train_test_split_samples:
  "train_test_split sk w (map fst data) (map snd data) f (map snd data) (Some seed) =
     (case sk (RandomState seed) (length data) f (map snd data) of
        None \<Rightarrow> Inl (LibraryError ''train_test_split'')
      | Some (train, test) \<Rightarrow>
          if list_all (\<lambda>i. i < length data) (train @ test)
          then Inr (map ((!) (map fst data)) train, map ((!) (map fst data)) test,
                    map ((!) (map snd data)) train, map ((!) (map snd data)) test)
          else Inl (LibraryError ''train_test_split''))"
  by (simp add: train_test_split_def check_random_state_def Let_def)

lemma subsample_ge1:
  "\<not> f < 1 \<Longrightarrow> subsample sk w ds f = Inl (AssertionError (Some fraction_message))"
  by (simp add: subsample_def)

lemma subsample_no_samples:
  "f < 1 \<Longrightarrow> getattr_samples ds = Inl e \<Longrightarrow> subsample sk w ds f = Inl e"
  by (simp add: subsample_def)

lemma subsample_ImageFolder:
  assumes "f < 1"
  shows "subsample sk w (ImageFolder r T data) f =
     (case sk (RandomState 42) (length data) f (map snd data) of
        None \<Rightarrow> Inl (LibraryError ''train_test_split'')
      | Some (train, test) \<Rightarrow>
          if list_all (\<lambda>i. i < length data) (train @ test)
          then Inr (ImageFolder r T (map ((!) data) train))
          else Inl (LibraryError ''train_test_split''))"
proof (cases "sk (RandomState 42) (length data) f (map snd data)")
  case None
  then show ?thesis
    using assms by (simp add: subsample_def train_test_split_samples Let_def)
next
  case (Some p)
  obtain train test where p: "p = (train, test)" by (cases p)
  show ?thesis
  proof (cases "list_all (\<lambda>i. i < length data) (train @ test)")
    case True
    then have "list_all (\<lambda>i. i < length data) train" by simp
    then have "zip (map ((!) (map fst data)) train) (map ((!) (map snd data)) train)
                 = map ((!) data) train"
      by (rule zip_nth_fst_snd)
    then show ?thesis
      using assms Some p True by (simp add: subsample_def train_test_split_samples Let_def)
  next
    case False
    then show ?thesis
      using assms Some p by (auto simp add: subsample_def train_test_split_samples Let_def)
  qed
qed

lemma subsample_lt1_not_assert:
  assumes "f < 1"
  shows "subsample sk w ds f \<noteq> Inl (AssertionError m)"
proof (cases ds)
  case (ImageFolder r T data)
  show ?thesis
    unfolding ImageFolder subsample_ImageFolder[OF assms]
    by (simp split: option.split prod.split)
next
  case (CIFAR c r t dl T)
  then show ?thesis using assms by (simp add: subsample_no_samples)
next
  case (STL10 r s dl T)
  then show ?thesis using assms by (simp add: subsample_no_samples)
qed

lemma prepare_datasets_unrecognized:
  "d \<notin> set recognized_names \<Longrightarrow>
     prepare_datasets sk w d Tt Tv tp vp fmt dl f = Inl (AssertionError None)"
  by (simp add: prepare_datasets_def)

lemma prepare_datasets_construct_fails:
  "d \<in> set recognized_names \<Longrightarrow>
   construct_datasets w d Tt Tv (default_path w tp) (default_path w vp) dl = Inl e \<Longrightarrow>
     prepare_datasets sk w d Tt Tv tp vp fmt dl f = Inl e"
  by (simp add: prepare_datasets_def)

lemma prepare_datasets_all_data:
  "d \<in> set recognized_names \<Longrightarrow>
   construct_datasets w d Tt Tv (default_path w tp) (default_path w vp) dl = Inr (tr, va) \<Longrightarrow>
   \<not> 0 < f \<Longrightarrow>
     prepare_datasets sk w d Tt Tv tp vp fmt dl f = Inr (tr, va)"
  by (simp add: prepare_datasets_def)

lemma prepare_datasets_subsample:
  "d \<in> set recognized_names \<Longrightarrow>
   construct_datasets w d Tt Tv (default_path w tp) (default_path w vp) dl = Inr (tr, va) \<Longrightarrow>
   0 < f \<Longrightarrow>
     prepare_datasets sk w d Tt Tv tp vp fmt dl f =
       (case subsample sk w tr f of Inl e \<Rightarrow> Inl e | Inr tr' \<Rightarrow> Inr (tr', va))"
  by (simp add: prepare_datasets_def)

lemma prepare_datasets_assert_cases:
  assumes "prepare_datasets sk w d Tt Tv tp vp fmt dl f = Inl (AssertionError m)"
  shows "(d \<notin> set recognized_names \<and> m = None)
       \<or> (d \<in> set recognized_names \<and> 0 < f \<and> \<not> f < 1 \<and> m = Some fraction_message)"
proof (cases "d \<in> set recognized_names")
  case False
  with assms show ?thesis by (simp add: prepare_datasets_unrecognized)
next
  case True
  show ?thesis
  proof (cases "construct_datasets w d Tt Tv (default_path w tp) (default_path w vp) dl")
    case (Inl e)
    with True assms have "e = AssertionError m"
      by (simp add: prepare_datasets_construct_fails)
    with Inl construct_datasets_not_assert show ?thesis by blast
  next
    case (Inr p)
    obtain tr va where p: "p = (tr, va)" by (cases p)
    show ?thesis
    proof (cases "0 < f")
      case False
      with True Inr p assms show ?thesis by (simp add: prepare_datasets_all_data)
    next
      case pos: True
      have res: "(case subsample sk w tr f of Inl e \<Rightarrow> Inl e | Inr tr' \<Rightarrow> Inr (tr', va))
                   = Inl (AssertionError m)"
        using True Inr p pos assms by (simp add: prepare_datasets_subsample)
      then have sub: "subsample sk w tr f = Inl (AssertionError m)"
        by (cases "subsample sk w tr f") simp_all
      show ?thesis
      proof (cases "f < 1")
        case True
        with sub subsample_lt1_not_assert show ?thesis by blast
      next
        case False
        with sub have "m = Some fraction_message" by (simp add: subsample_ge1)
        with True pos False show ?thesis by simp
      qed
    qed
  qed
qed

lemma prepare_datasets_fraction_ge1:
  assumes "1 \<le> f"
  shows "isl (prepare_datasets sk w d Tt Tv tp vp fmt dl f)"
    and "construct_datasets w d Tt Tv (default_path w tp) (default_path w vp) dl = Inr (tr, va)
         \<Longrightarrow> d \<in> set recognized_names
         \<Longrightarrow> prepare_datasets sk w d Tt Tv tp vp fmt dl f = Inl (AssertionError (Some fraction_message))"
proof -
  have pos: "0 < f" and ge: "\<not> f < 1" using assms by simp_all
  show "isl (prepare_datasets sk w d Tt Tv tp vp fmt dl f)"
  proof (cases "d \<in> set recognized_names")
    case False
    then show ?thesis by (simp add: prepare_datasets_unrecognized)
  next
    case True
    show ?thesis
    proof (cases "construct_datasets w d Tt Tv (default_path w tp) (default_path w vp) dl")
      case (Inl e)
      with True show ?thesis by (simp add: prepare_datasets_construct_fails)
    next
      case (Inr p)
      obtain tr va where "p = (tr, va)" by (cases p)
      with True Inr pos ge show ?thesis
        by (simp add: prepare_datasets_subsample subsample_ge1)
    qed
  qed
  show "prepare_datasets sk w d Tt Tv tp vp fmt dl f = Inl (AssertionError (Some fraction_message))"
    if "construct_datasets w d Tt Tv (default_path w tp) (default_path w vp) dl = Inr (tr, va)"
      and "d \<in> set recognized_names"
    using that pos ge by (simp add: prepare_datasets_subsample subsample_ge1)
qed

lemma construct_datasets_recognized:
  "construct_datasets w d Tt Tv tp vp dl = Inr p \<Longrightarrow> d \<in> set recognized_names"
  by (auto simp: construct_datasets_def recognized_names_def cifar_names_def folder_names_def
      split: if_splits)

lemma prepare_datasets_format:
  "prepare_datasets sk w d Tt Tv tp vp fmt dl f = prepare_datasets sk w d Tt Tv tp vp fmt' dl f"
  unfolding prepare_datasets_def ..


subsection \<open>Batches and names\<close>

lemma upper_cifar: "upper ''cifar10'' = ''CIFAR10''" "upper ''cifar100'' = ''CIFAR100''"
  by code_simp+

lemma list_all_replicate: "list_all (\<lambda>k. k = b) (replicate m b)"
  by (induction m) simp_all

lemma sum_list_replicate_nat: "sum_list (replicate m (b::nat)) = m * b"
  by (induction m) simp_all

lemma loader_batch_sizes_drop_last:
  "drop_last L \<Longrightarrow> list_all (\<lambda>k. k = nat (batch_size L)) (loader_batch_sizes L n)"
  by (simp add: loader_batch_sizes_def Let_def list_all_replicate)

lemma loader_batch_sizes_keep_last:
  assumes "\<not> drop_last L"
  shows "sum_list (loader_batch_sizes L n) = n"
    and "n mod nat (batch_size L) \<noteq> 0 \<Longrightarrow>
           loader_batch_sizes L n \<noteq> [] \<and> last (loader_batch_sizes L n) = n mod nat (batch_size L)"
proof -
  let ?b = "nat (batch_size L)"
  have "n div ?b * ?b + n mod ?b = n" by simp
  then have "n mod ?b = 0 \<Longrightarrow> n div ?b * ?b = n" by simp
  then show "sum_list (loader_batch_sizes L n) = n"
    using assms by (simp add: loader_batch_sizes_def Let_def sum_list_replicate_nat)
  show "loader_batch_sizes L n \<noteq> [] \<and> last (loader_batch_sizes L n) = n mod ?b"
    if "n mod ?b \<noteq> 0"
    using assms that by (simp add: loader_batch_sizes_def Let_def)
qed

subsection \<open>The three branches of the dispatch\<close>

lemma folder_names_set:
  "set folder_names = {''imagenet'', ''imagenet100'', ''custom'', ''imagenet32''}"
  by (auto simp: folder_names_def)

lemma folder_names_recognized: "d \<in> set folder_names \<Longrightarrow> d \<in> set recognized_names"
  by (auto simp: folder_names_def recognized_names_def)

lemma construct_datasets_stl10:
  "construct_datasets w ''stl10'' Tt Tv tp vp dl =
     (if stl10_loads w tp ''train'' True then
        if stl10_loads w vp ''test'' dl
        then Inr (STL10 tp ''train'' True Tt, STL10 vp ''test'' dl Tv)
        else Inl (LibraryError ''STL10'')
      else Inl (LibraryError ''STL10''))"
  by (simp add: construct_datasets_def cifar_names_def new_STL10_def)

lemma construct_datasets_cifar:
  assumes "d \<in> set cifar_names"
  shows "\<exists>c. construct_datasets w d Tt Tv tp vp dl =
     (if cifar_loads w c tp True dl then
        if cifar_loads w c vp False dl
        then Inr (CIFAR c tp True dl Tt, CIFAR c vp False dl Tv)
        else Inl (LibraryError ''CIFAR'')
      else Inl (LibraryError ''CIFAR''))"
proof -
  have "d = ''cifar10'' \<or> d = ''cifar100''" using assms by (simp add: cifar_names_def)
  then show ?thesis
  proof
    assume d: "d = ''cifar10''"
    show ?thesis
      by (rule exI[of _ CIFAR10])
         (simp add: d construct_datasets_def cifar_names_def upper_cifar getitem_def
            torchvision_datasets_def new_CIFAR_def)
  next
    assume d: "d = ''cifar100''"
    show ?thesis
      by (rule exI[of _ CIFAR100])
         (simp add: d construct_datasets_def cifar_names_def upper_cifar getitem_def
            torchvision_datasets_def new_CIFAR_def)
  qed
qed

lemma construct_datasets_folder:
  assumes "d \<in> set folder_names"
  shows "construct_datasets w d Tt Tv tp vp dl =
     (case image_tree w tp of
        None \<Rightarrow> Inl (LibraryError ''ImageFolder'')
      | Some s \<Rightarrow>
          (case image_tree w vp of
             None \<Rightarrow> Inl (LibraryError ''ImageFolder'')
           | Some s' \<Rightarrow> Inr (ImageFolder tp Tt s, ImageFolder vp Tv s')))"
proof -
  have "d \<notin> set cifar_names" "d \<noteq> ''stl10''"
    using assms by (auto simp: folder_names_def cifar_names_def)
  then show ?thesis
    using assms by (simp add: construct_datasets_def new_ImageFolder_def split: option.split)
qed

lemma construct_archive_no_samples:
  assumes "d \<in> set cifar_names \<or> d = ''stl10''"
    and "construct_datasets w d Tt Tv tp vp dl = Inr (tr, va)"
  shows "getattr_samples tr = Inl (AttributeError ''samples'')"
proof (cases "d = ''stl10''")
  case True
  with assms(2) show ?thesis
    by (auto simp: construct_datasets_stl10 split: if_splits)
next
  case False
  with assms(1) have "d \<in> set cifar_names" by simp
  from construct_datasets_cifar[OF this, of w Tt Tv tp vp dl] assms(2) show ?thesis
    by (auto split: if_splits)
qed

lemma prepare_datasets_Inr_construct:
  assumes "prepare_datasets sk w d Tt Tv tp vp fmt dl f = Inr (tr, va)"
  shows "d \<in> set recognized_names"
    and "\<exists>tr0. construct_datasets w d Tt Tv (default_path w tp) (default_path w vp) dl = Inr (tr0, va)
           \<and> (if 0 < f then subsample sk w tr0 f = Inr tr else tr = tr0)"
proof -
  show rec: "d \<in> set recognized_names"
    using assms by (cases "d \<in> set recognized_names") (simp_all add: prepare_datasets_unrecognized)
  show "\<exists>tr0. construct_datasets w d Tt Tv (default_path w tp) (default_path w vp) dl = Inr (tr0, va)
           \<and> (if 0 < f then subsample sk w tr0 f = Inr tr else tr = tr0)"
  proof (cases "construct_datasets w d Tt Tv (default_path w tp) (default_path w vp) dl")
    case (Inl e)
    with rec assms show ?thesis by (simp add: prepare_datasets_construct_fails)
  next
    case (Inr p)
    obtain tr0 va0 where p: "p = (tr0, va0)" by (cases p)
    show ?thesis
    proof (cases "0 < f")
      case True
      with rec Inr p assms
      have "(case subsample sk w tr0 f of Inl e \<Rightarrow> Inl e | Inr tr' \<Rightarrow> Inr (tr', va0)) = Inr (tr, va)"
        by (simp add: prepare_datasets_subsample)
      then have "subsample sk w tr0 f = Inr tr \<and> va0 = va"
        by (cases "subsample sk w tr0 f") simp_all
      with Inr p True show ?thesis by simp
    next
      case False
      with rec Inr p assms show ?thesis by (simp add: prepare_datasets_all_data)
    qed
  qed
qed

lemma archive_names_recognized:
  "d \<in> {''cifar10'', ''cifar100'', ''stl10''} \<Longrightarrow> d \<in> set recognized_names"
  by (auto simp: recognized_names_def)

lemma archive_names_cases:
  "d \<in> {''cifar10'', ''cifar100'', ''stl10''} \<Longrightarrow> d \<in> set cifar_names \<or> d = ''stl10''"
  by (auto simp: cifar_names_def)

lemma recognized_names_cases:
  "d \<in> set recognized_names \<Longrightarrow>
     d \<in> {''cifar10'', ''cifar100'', ''stl10''} \<or> d \<in> set folder_names"
  by (auto simp: recognized_names_def folder_names_def)

lemma prepare_datasets_archive_fraction:
  assumes d: "d \<in> {''cifar10'', ''cifar100'', ''stl10''}" and f: "0 < f" "f < 1"
  shows "isl (prepare_datasets sk w d Tt Tv tp vp fmt dl f)"
    and "construct_datasets w d Tt Tv (default_path w tp) (default_path w vp) dl = Inr (tr, va)
         \<Longrightarrow> prepare_datasets sk w d Tt Tv tp vp fmt dl f = Inl (AttributeError ''samples'')"
proof -
  note rec = archive_names_recognized[OF d]
  show att: "prepare_datasets sk w d Tt Tv tp vp fmt dl f = Inl (AttributeError ''samples'')"
    if c: "construct_datasets w d Tt Tv (default_path w tp) (default_path w vp) dl = Inr (tr, va)"
    for tr va
  proof -
    have "getattr_samples tr = Inl (AttributeError ''samples'')"
      using construct_archive_no_samples[OF archive_names_cases[OF d] c] .
    then have "subsample sk w tr f = Inl (AttributeError ''samples'')"
      using f(2) by (simp add: subsample_no_samples)
    then show ?thesis
      using rec c f(1) by (simp add: prepare_datasets_subsample)
  qed
  show "isl (prepare_datasets sk w d Tt Tv tp vp fmt dl f)"
  proof (cases "construct_datasets w d Tt Tv (default_path w tp) (default_path w vp) dl")
    case (Inl e)
    with rec show ?thesis by (simp add: prepare_datasets_construct_fails)
  next
    case (Inr p)
    obtain tr va where "p = (tr, va)" by (cases p)
    with Inr att[of tr va] show ?thesis by simp
  qed
qed

text \<open>With \<open>data_fraction\<close> in (0, 1) only a folder-per-class name returns datasets.\<close>

lemma prepare_datasets_fraction_Inr_folder:
  assumes "0 < f" and "f < 1"
    and r: "prepare_datasets sk w d Tt Tv tp vp fmt dl f = Inr r"
  shows "d \<in> set folder_names"
proof -
  obtain tr va where "r = (tr, va)" by (cases r)
  with r have "d \<in> set recognized_names"
    using prepare_datasets_Inr_construct(1) by blast
  then have "d \<in> {''cifar10'', ''cifar100'', ''stl10''} \<or> d \<in> set folder_names"
    by (rule recognized_names_cases)
  moreover have "d \<notin> {''cifar10'', ''cifar100'', ''stl10''}"
    using prepare_datasets_archive_fraction(1)[OF _ assms(1,2), of d sk w Tt Tv tp vp fmt dl] r
    by auto
  ultimately show ?thesis by simp
qed

subsection \<open>What the builder reads from the world\<close>

lemma train_test_split_world:
  "train_test_split sk w xs ys f st (Some seed) = train_test_split sk w' xs ys f st (Some seed)"
  by (simp add: train_test_split_def check_random_state_def Let_def)

lemma subsample_world: "subsample sk w ds f = subsample sk w' ds f"
  unfolding subsample_def
  by (simp only: train_test_split_world[of sk w _ _ f _ 42 w'])

lemma default_path_global_rng: "default_path (w\<lparr>global_rng := g\<rparr>) p = default_path w p"
  by (simp add: default_path_def split: option.split)

lemma new_dataset_global_rng:
  "new_CIFAR (w\<lparr>global_rng := g\<rparr>) c p t dl T = new_CIFAR w c p t dl T"
  "new_STL10 (w\<lparr>global_rng := g\<rparr>) p s dl T = new_STL10 w p s dl T"
  "new_ImageFolder (w\<lparr>global_rng := g\<rparr>) p T = new_ImageFolder w p T"
  by (simp_all add: new_CIFAR_def new_STL10_def new_ImageFolder_def)

lemma construct_datasets_global_rng:
  "construct_datasets (w\<lparr>global_rng := g\<rparr>) d Tt Tv tp vp dl = construct_datasets w d Tt Tv tp vp dl"
  unfolding construct_datasets_def by (simp only: new_dataset_global_rng)

lemma prepare_datasets_global_rng:
  "prepare_datasets sk (w\<lparr>global_rng := g\<rparr>) d Tt Tv tp vp fmt dl f
     = prepare_datasets sk w d Tt Tv tp vp fmt dl f"
  unfolding prepare_datasets_def default_path_global_rng construct_datasets_global_rng
  by (simp only: subsample_world[of sk "w\<lparr>global_rng := g\<rparr>" _ f w])

lemma prepare_datasets_folder_fraction_Inr:
  assumes f: "0 < f" "f < 1"
    and r: "prepare_datasets sk w d Tt Tv tp vp fmt dl f = Inr (tr, va)"
  shows "\<exists>data train test.
           image_tree w (default_path w tp) = Some data
           \<and> sk (RandomState 42) (length data) f (map snd data) = Some (train, test)
           \<and> list_all (\<lambda>i. i < length data) (train @ test)
           \<and> tr = ImageFolder (default_path w tp) Tt (map ((!) data) train)"
proof -
  have d: "d \<in> set folder_names"
    using prepare_datasets_fraction_Inr_folder[OF f r] .
  from prepare_datasets_Inr_construct(2)[OF r] f(1) obtain tr0 where
    c: "construct_datasets w d Tt Tv (default_path w tp) (default_path w vp) dl = Inr (tr0, va)"
    and s: "subsample sk w tr0 f = Inr tr"
    by auto
  from c construct_datasets_folder[OF d, of w Tt Tv "default_path w tp" "default_path w vp" dl]
  obtain data where t: "image_tree w (default_path w tp) = Some data"
    and tr0: "tr0 = ImageFolder (default_path w tp) Tt data"
    by (auto split: option.splits)
  from s[unfolded tr0 subsample_ImageFolder[OF f(2)]]
  obtain train test where "sk (RandomState 42) (length data) f (map snd data) = Some (train, test)"
    and "list_all (\<lambda>i. i < length data) (train @ test)"
    and "tr = ImageFolder (default_path w tp) Tt (map ((!) data) train)"
    by (auto split: option.splits if_splits)
  with t show ?thesis by blast
qed

subsection \<open>The subsample of a folder-per-class dataset\<close>





section \<open>The claims\<close>

text \<open>
  Claim C2, as it is written, fails: the two datasets are constructed (lines 212 to 244)
  before the assertion on \<open>data_fraction\<close> (line 247) is reached. With the recognized
  name \<open>imagenet\<close>, no folder under the default path and \<open>data_fraction = 1\<close>, the call
  ends with the error of the library, not with an assertion error.
\<close>

theorem C2_fraction_assertion_counterexample:
  "prepare_datasets demo_split (demo_world 0) ''imagenet'' demo_T demo_T None None None True 1
     = Inl (LibraryError ''ImageFolder'')"
  by (simp add: prepare_datasets_def recognized_names_def construct_datasets_def
      cifar_names_def folder_names_def default_path_def new_ImageFolder_def
      demo_world_def demo_tree_def)

text \<open>
  Claim C2, amended. A call with \<open>data_fraction\<close> at least 1 never returns datasets. It
  fails with the assertion on the name when the name is not recognized, with the error the
  library raised when the construction of the two datasets failed, and with the assertion
  ``Only use data_fraction for values smaller than 1.'' whenever the two datasets were
  constructed. For \<open>data_fraction \<le> 0\<close> and for \<open>data_fraction\<close> in (0, 1) that
  assertion is never raised.
\<close>

theorem C2_fraction_assertion:
  "(1 \<le> f \<longrightarrow>
      isl (prepare_datasets sk w d Tt Tv tp vp fmt dl f)
      \<and> (d \<notin> set recognized_names \<longrightarrow>
           prepare_datasets sk w d Tt Tv tp vp fmt dl f = Inl (AssertionError None))
      \<and> (\<forall>e. d \<in> set recognized_names \<longrightarrow>
              construct_datasets w d Tt Tv (default_path w tp) (default_path w vp) dl = Inl e \<longrightarrow>
           prepare_datasets sk w d Tt Tv tp vp fmt dl f = Inl e)
      \<and> (\<forall>tr va. construct_datasets w d Tt Tv (default_path w tp) (default_path w vp) dl
                    = Inr (tr, va) \<longrightarrow>
           prepare_datasets sk w d Tt Tv tp vp fmt dl f
             = Inl (AssertionError (Some fraction_message))))
   \<and> (f < 1 \<longrightarrow>
        prepare_datasets sk w d Tt Tv tp vp fmt dl f
          \<noteq> Inl (AssertionError (Some fraction_message)))"
proof -
  have a: "isl (prepare_datasets sk w d Tt Tv tp vp fmt dl f)" if "1 \<le> f"
    using that by (rule prepare_datasets_fraction_ge1(1))
  have b: "prepare_datasets sk w d Tt Tv tp vp fmt dl f = Inl (AssertionError None)"
    if "d \<notin> set recognized_names"
    using that by (rule prepare_datasets_unrecognized)
  have c: "prepare_datasets sk w d Tt Tv tp vp fmt dl f = Inl e"
    if "d \<in> set recognized_names"
      and "construct_datasets w d Tt Tv (default_path w tp) (default_path w vp) dl = Inl e"
    for e
    using that by (rule prepare_datasets_construct_fails)
  have d: "prepare_datasets sk w d Tt Tv tp vp fmt dl f
             = Inl (AssertionError (Some fraction_message))"
    if "1 \<le> f"
      and "construct_datasets w d Tt Tv (default_path w tp) (default_path w vp) dl = Inr (tr, va)"
    for tr va
    using that prepare_datasets_fraction_ge1(2) construct_datasets_recognized by blast
  have e: "prepare_datasets sk w d Tt Tv tp vp fmt dl f
             \<noteq> Inl (AssertionError (Some fraction_message))"
    if "f < 1"
    using that
      prepare_datasets_assert_cases[of sk w d Tt Tv tp vp fmt dl f "Some fraction_message"]
    by auto
  show ?thesis using a b c d e by blast
qed

theorem C2_fraction_assertion_witness:
  "prepare_datasets demo_split (demo_world 0) ''imagenet'' demo_T demo_T
      (Some ''/data/train'') (Some ''/data/val'') None True 1
     = Inl (AssertionError (Some fraction_message))
   \<and> prepare_datasets demo_split (demo_world 0) ''imagenet'' demo_T demo_T
      (Some ''/data/train'') (Some ''/data/val'') None True (1/2)
     \<noteq> Inl (AssertionError (Some fraction_message))
   \<and> prepare_datasets demo_split (demo_world 0) ''imagenet'' demo_T demo_T
      (Some ''/data/train'') (Some ''/data/val'') None True (-1)
     \<noteq> Inl (AssertionError (Some fraction_message))"
proof -
  have c: "construct_datasets (demo_world 0) ''imagenet'' demo_T demo_T
             (default_path (demo_world 0) (Some ''/data/train''))
             (default_path (demo_world 0) (Some ''/data/val'')) True
           = Inr (ImageFolder ''/data/train'' demo_T demo_train,
                  ImageFolder ''/data/val'' demo_T demo_val)"
    by (simp add: construct_datasets_def default_path_def cifar_names_def folder_names_def
        new_ImageFolder_def demo_world_def demo_tree_def)
  show ?thesis
    using c
      C2_fraction_assertion[of 1 demo_split "demo_world 0" "''imagenet''" demo_T demo_T
        "Some ''/data/train''" "Some ''/data/val''" None True]
      C2_fraction_assertion[of "1/2" demo_split "demo_world 0" "''imagenet''" demo_T demo_T
        "Some ''/data/train''" "Some ''/data/val''" None True]
      C2_fraction_assertion[of "-1" demo_split "demo_world 0" "''imagenet''" demo_T demo_T
        "Some ''/data/train''" "Some ''/data/val''" None True]
    by simp
qed


text \<open>
  Claim C3. For a dataset name outside the seven recognized ones the transform selector
  and the dataset builder both fail with the assertion error (the one without message);
  for a name among the seven neither of the two assertions on the name fires.
\<close>

theorem C3_name_assertion:
  "(d \<notin> {''cifar10'', ''cifar100'', ''stl10'', ''imagenet'', ''imagenet100'', ''imagenet32'', ''custom''}
      \<longrightarrow> prepare_transforms d = Inl (AssertionError None)
          \<and> prepare_datasets sk w d Tt Tv tp vp fmt dl f = Inl (AssertionError None))
   \<and> (d \<in> {''cifar10'', ''cifar100'', ''stl10'', ''imagenet'', ''imagenet100'', ''imagenet32'', ''custom''}
      \<longrightarrow> prepare_transforms d \<noteq> Inl (AssertionError None)
          \<and> prepare_datasets sk w d Tt Tv tp vp fmt dl f \<noteq> Inl (AssertionError None))"
proof -
  have "prepare_datasets sk w d Tt Tv tp vp fmt dl f \<noteq> Inl (AssertionError None)"
    if "d \<in> set recognized_names"
    using that prepare_datasets_assert_cases[of sk w d Tt Tv tp vp fmt dl f None] by auto
  moreover have "prepare_transforms d \<noteq> Inl (AssertionError None)" if "d \<in> set recognized_names"
    using prepare_transforms_recognized[OF that] by auto
  ultimately show ?thesis
    using prepare_transforms_unrecognized[of d]
      prepare_datasets_unrecognized[of d sk w Tt Tv tp vp fmt dl f]
    unfolding recognized_names_set[symmetric] by blast
qed

theorem C3_name_assertion_witness:
  "prepare_transforms ''mnist'' = Inl (AssertionError None)
   \<and> prepare_datasets demo_split (demo_world 0) ''mnist'' demo_T demo_T None None None True (-1)
       = Inl (AssertionError None)
   \<and> prepare_transforms ''imagenet32'' \<noteq> Inl (AssertionError None)
   \<and> prepare_datasets demo_split (demo_world 0) ''imagenet32'' demo_T demo_T None None None True (-1)
       \<noteq> Inl (AssertionError None)"
  using C3_name_assertion[of "''mnist''" demo_split "demo_world 0" demo_T demo_T None None None True "-1"]
    C3_name_assertion[of "''imagenet32''" demo_split "demo_world 0" demo_T demo_T None None None True "-1"]
  by simp


text \<open>
  Claim C8. Two calls of \<open>prepare_datasets\<close>, or of \<open>prepare_data\<close>, that differ only in
  \<open>data_format\<close> have the same result.
\<close>

theorem C8_data_format_unused:
  "prepare_datasets sk w d Tt Tv tp vp fmt dl f = prepare_datasets sk w d Tt Tv tp vp fmt' dl f
   \<and> prepare_data sk w d tp vp fmt bs nw dl f = prepare_data sk w d tp vp fmt' bs nw dl f"
proof
  show "prepare_datasets sk w d Tt Tv tp vp fmt dl f = prepare_datasets sk w d Tt Tv tp vp fmt' dl f"
    by (rule prepare_datasets_format)
  show "prepare_data sk w d tp vp fmt bs nw dl f = prepare_data sk w d tp vp fmt' bs nw dl f"
    unfolding prepare_data_def
    by (simp only: prepare_datasets_format[of sk w d _ _ tp vp fmt dl f fmt'])
qed


text \<open>
  Claim C6. For every pair of datasets, batch size and worker count, \<open>prepare_dataloaders\<close>
  builds the training loader with shuffling, drop-last, pinned memory and the given worker
  count, and the validation loader without shuffling and without drop-last, with the same
  pinned memory and worker count. So every batch of the training loader has the configured
  size, the validation loader covers all samples, and when the batch size is positive and
  does not divide the number of samples its final batch is smaller than the configured
  size.
\<close>

theorem C6_loader_configuration:
  "dl_dataset (fst (prepare_dataloaders tr va bs nw)) = tr
   \<and> batch_size (fst (prepare_dataloaders tr va bs nw)) = bs
   \<and> shuffle (fst (prepare_dataloaders tr va bs nw))
   \<and> drop_last (fst (prepare_dataloaders tr va bs nw))
   \<and> pin_memory (fst (prepare_dataloaders tr va bs nw))
   \<and> num_workers (fst (prepare_dataloaders tr va bs nw)) = nw
   \<and> dl_dataset (snd (prepare_dataloaders tr va bs nw)) = va
   \<and> batch_size (snd (prepare_dataloaders tr va bs nw)) = bs
   \<and> \<not> shuffle (snd (prepare_dataloaders tr va bs nw))
   \<and> \<not> drop_last (snd (prepare_dataloaders tr va bs nw))
   \<and> pin_memory (snd (prepare_dataloaders tr va bs nw))
   \<and> num_workers (snd (prepare_dataloaders tr va bs nw)) = nw
   \<and> list_all (\<lambda>k. k = nat bs) (loader_batch_sizes (fst (prepare_dataloaders tr va bs nw)) n)
   \<and> sum_list (loader_batch_sizes (snd (prepare_dataloaders tr va bs nw)) n) = n
   \<and> (0 < bs \<and> n mod nat bs \<noteq> 0 \<longrightarrow>
        loader_batch_sizes (snd (prepare_dataloaders tr va bs nw)) n \<noteq> []
        \<and> last (loader_batch_sizes (snd (prepare_dataloaders tr va bs nw)) n) < nat bs)"
proof -
  let ?TL = "fst (prepare_dataloaders tr va bs nw)"
  let ?VL = "snd (prepare_dataloaders tr va bs nw)"
  have cfg:
    "dl_dataset ?TL = tr" "batch_size ?TL = bs" "shuffle ?TL" "drop_last ?TL"
    "pin_memory ?TL" "num_workers ?TL = nw"
    "dl_dataset ?VL = va" "batch_size ?VL = bs" "\<not> shuffle ?VL" "\<not> drop_last ?VL"
    "pin_memory ?VL" "num_workers ?VL = nw"
    by (simp_all add: prepare_dataloaders_def new_DataLoader_def)
  have tl: "list_all (\<lambda>k. k = nat bs) (loader_batch_sizes ?TL n)"
    using loader_batch_sizes_drop_last[of ?TL n] cfg(2,4) by simp
  have vl: "sum_list (loader_batch_sizes ?VL n) = n"
    using loader_batch_sizes_keep_last(1)[of ?VL n] cfg(10) by simp
  have vlast: "loader_batch_sizes ?VL n \<noteq> [] \<and> last (loader_batch_sizes ?VL n) < nat bs"
    if "0 < bs" "n mod nat bs \<noteq> 0"
  proof -
    have "loader_batch_sizes ?VL n \<noteq> [] \<and> last (loader_batch_sizes ?VL n) = n mod nat bs"
      using loader_batch_sizes_keep_last(2)[of ?VL n] cfg(8,10) that by simp
    moreover have "n mod nat bs < nat bs" using that(1) by simp
    ultimately show ?thesis by simp
  qed
  show ?thesis using cfg tl vl vlast by blast
qed

theorem C6_loader_configuration_witness:
  "loader_batch_sizes
       (fst (prepare_dataloaders (ImageFolder ''/data/train'' demo_T demo_train)
              (ImageFolder ''/data/val'' demo_T demo_val) 2 4)) 5 = [2, 2]
   \<and> loader_batch_sizes
       (snd (prepare_dataloaders (ImageFolder ''/data/train'' demo_T demo_train)
              (ImageFolder ''/data/val'' demo_T demo_val) 2 4)) 3 = [2, 1]
   \<and> last (loader_batch_sizes
       (snd (prepare_dataloaders (ImageFolder ''/data/train'' demo_T demo_train)
              (ImageFolder ''/data/val'' demo_T demo_val) 2 4)) 3) < nat 2"
proof -
  let ?tr = "ImageFolder ''/data/train'' demo_T demo_train"
  let ?va = "ImageFolder ''/data/val'' demo_T demo_val"
  have e1: "loader_batch_sizes (fst (prepare_dataloaders ?tr ?va 2 4)) 5 = [2, 2]"
    by code_simp
  have e2: "loader_batch_sizes (snd (prepare_dataloaders ?tr ?va 2 4)) 3 = [2, 1]"
    by code_simp
  have e3: "(0::int) < 2 \<and> (3::nat) mod nat 2 \<noteq> 0" by simp
  show ?thesis
    using C6_loader_configuration[of ?tr ?va 2 4 3] e1 e2 e3 by simp
qed


text \<open>
  Claim C7. For the name \<open>stl10\<close> the builder constructs the training dataset from the
  split \<open>train\<close> with download enabled whatever the download flag is, and the validation
  dataset from the split \<open>test\<close> with the download flag as given: these are the two
  constructor calls of the dispatch, the result of the builder when all data is used, and
  the only datasets the builder can return for this name.
\<close>

theorem C7_stl10_splits:
  "construct_datasets w ''stl10'' Tt Tv tp vp dl =
     (if stl10_loads w tp ''train'' True then
        if stl10_loads w vp ''test'' dl
        then Inr (STL10 tp ''train'' True Tt, STL10 vp ''test'' dl Tv)
        else Inl (LibraryError ''STL10'')
      else Inl (LibraryError ''STL10''))
   \<and> (\<not> 0 < f \<longrightarrow>
        prepare_datasets sk w ''stl10'' Tt Tv tpo vpo fmt dl f =
          construct_datasets w ''stl10'' Tt Tv (default_path w tpo) (default_path w vpo) dl)
   \<and> (\<forall>tr va. prepare_datasets sk w ''stl10'' Tt Tv tpo vpo fmt dl f = Inr (tr, va) \<longrightarrow>
        tr = STL10 (default_path w tpo) ''train'' True Tt
        \<and> va = STL10 (default_path w vpo) ''test'' dl Tv)"
proof -
  have all_data: "prepare_datasets sk w ''stl10'' Tt Tv tpo vpo fmt dl f =
          construct_datasets w ''stl10'' Tt Tv (default_path w tpo) (default_path w vpo) dl"
    if "\<not> 0 < f"
    using that by (simp add: prepare_datasets_def recognized_names_def split: sum.split)
  have built: "tr = STL10 (default_path w tpo) ''train'' True Tt
        \<and> va = STL10 (default_path w vpo) ''test'' dl Tv"
    if r: "prepare_datasets sk w ''stl10'' Tt Tv tpo vpo fmt dl f = Inr (tr, va)" for tr va
  proof -
    from prepare_datasets_Inr_construct(2)[OF r] obtain tr0 where
      c: "construct_datasets w ''stl10'' Tt Tv (default_path w tpo) (default_path w vpo) dl
            = Inr (tr0, va)"
      and t: "if 0 < f then subsample sk w tr0 f = Inr tr else tr = tr0"
      by blast
    from c have tr0: "tr0 = STL10 (default_path w tpo) ''train'' True Tt"
      and va: "va = STL10 (default_path w vpo) ''test'' dl Tv"
      by (auto simp: construct_datasets_stl10 split: if_splits)
    have "\<not> 0 < f"
    proof
      assume pos: "0 < f"
      with t have s: "subsample sk w tr0 f = Inr tr" by simp
      show False
      proof (cases "f < 1")
        case True
        then show False using s tr0 by (simp add: subsample_no_samples)
      next
        case False
        then show False using s by (simp add: subsample_ge1)
      qed
    qed
    with t tr0 va show ?thesis by simp
  qed
  show ?thesis
    using construct_datasets_stl10[of w Tt Tv tp vp dl] all_data built by blast
qed

theorem C7_stl10_splits_witness:
  "prepare_datasets demo_split (demo_world 0) ''stl10'' demo_T demo_T None (Some ''/data/val'')
       None False (-1)
     = Inr (STL10 ''/repo/datasets'' ''train'' True demo_T, STL10 ''/data/val'' ''test'' False demo_T)"
proof -
  have c: "construct_datasets (demo_world 0) ''stl10'' demo_T demo_T
             (default_path (demo_world 0) None) (default_path (demo_world 0) (Some ''/data/val'')) False
           = Inr (STL10 ''/repo/datasets'' ''train'' True demo_T,
                  STL10 ''/data/val'' ''test'' False demo_T)"
    by (simp add: construct_datasets_stl10 demo_world_def default_path_def)
  show ?thesis
    using C7_stl10_splits[of "demo_world 0" demo_T demo_T "''/repo/datasets''" "''/data/val''" False
        "-1" demo_split None "Some ''/data/val''" None] c
    by simp
qed

text \<open>
  Claim C9. For the names \<open>imagenet\<close>, \<open>imagenet100\<close>, \<open>custom\<close> and \<open>imagenet32\<close> the two
  datasets are the two \<open>ImageFolder\<close> objects over the training and the validation root
  path (or the error \<open>ImageFolder\<close> raises on one of the paths), and the download flag
  changes neither the construction nor the result of the builder; with no subsampling
  asked for, the builder returns exactly these two objects over its root paths.
\<close>

theorem C9_folder_branch:
  assumes "d \<in> {''imagenet'', ''imagenet100'', ''custom'', ''imagenet32''}"
  shows "construct_datasets w d Tt Tv tp vp dl =
           (case image_tree w tp of
              None \<Rightarrow> Inl (LibraryError ''ImageFolder'')
            | Some s \<Rightarrow>
                (case image_tree w vp of
                   None \<Rightarrow> Inl (LibraryError ''ImageFolder'')
                 | Some s' \<Rightarrow> Inr (ImageFolder tp Tt s, ImageFolder vp Tv s')))
         \<and> construct_datasets w d Tt Tv tp vp dl = construct_datasets w d Tt Tv tp vp dl'
         \<and> prepare_datasets sk w d Tt Tv tpo vpo fmt dl f
             = prepare_datasets sk w d Tt Tv tpo vpo fmt dl' f
         \<and> (\<not> 0 < f \<longrightarrow>
              prepare_datasets sk w d Tt Tv tpo vpo fmt dl f =
                (case image_tree w (default_path w tpo) of
                   None \<Rightarrow> Inl (LibraryError ''ImageFolder'')
                 | Some s \<Rightarrow>
                     (case image_tree w (default_path w vpo) of
                        None \<Rightarrow> Inl (LibraryError ''ImageFolder'')
                      | Some s' \<Rightarrow> Inr (ImageFolder (default_path w tpo) Tt s,
                                         ImageFolder (default_path w vpo) Tv s'))))"
proof -
  have d: "d \<in> set folder_names" using assms by (simp add: folder_names_set)
  note rec = folder_names_recognized[OF d]
  have same: "construct_datasets w d Tt Tv p q dl = construct_datasets w d Tt Tv p q dl'" for p q
    by (simp add: construct_datasets_folder[OF d])
  have flag: "prepare_datasets sk w d Tt Tv tpo vpo fmt dl f
          = prepare_datasets sk w d Tt Tv tpo vpo fmt dl' f"
    unfolding prepare_datasets_def Let_def
    by (simp only: same[of "default_path w tpo" "default_path w vpo"])
  have all: "prepare_datasets sk w d Tt Tv tpo vpo fmt dl f =
                (case image_tree w (default_path w tpo) of
                   None \<Rightarrow> Inl (LibraryError ''ImageFolder'')
                 | Some s \<Rightarrow>
                     (case image_tree w (default_path w vpo) of
                        None \<Rightarrow> Inl (LibraryError ''ImageFolder'')
                      | Some s' \<Rightarrow> Inr (ImageFolder (default_path w tpo) Tt s,
                                         ImageFolder (default_path w vpo) Tv s')))"
    if nf: "\<not> 0 < f"
  proof (cases "construct_datasets w d Tt Tv (default_path w tpo) (default_path w vpo) dl")
    case (Inl e)
    from prepare_datasets_construct_fails[OF rec Inl, of sk fmt f] Inl show ?thesis
      by (simp add: construct_datasets_folder[OF d])
  next
    case (Inr p)
    obtain tr va where p: "p = (tr, va)" by (cases p)
    from prepare_datasets_all_data[OF rec Inr[unfolded p] nf, of sk fmt] Inr p show ?thesis
      by (simp add: construct_datasets_folder[OF d])
  qed
  from same[of tp vp] construct_datasets_folder[OF d, of w Tt Tv tp vp dl] flag all
  show ?thesis by simp
qed

theorem C9_folder_branch_witness:
  "construct_datasets (demo_world 0) ''custom'' demo_T demo_T ''/data/train'' ''/data/val'' True
     = Inr (ImageFolder ''/data/train'' demo_T demo_train, ImageFolder ''/data/val'' demo_T demo_val)
   \<and> prepare_datasets demo_split (demo_world 0) ''custom'' demo_T demo_T
        (Some ''/data/train'') (Some ''/data/val'') None True (-1)
     = prepare_datasets demo_split (demo_world 0) ''custom'' demo_T demo_T
        (Some ''/data/train'') (Some ''/data/val'') None False (-1)
   \<and> prepare_datasets demo_split (demo_world 0) ''custom'' demo_T demo_T
        (Some ''/data/train'') (Some ''/data/val'') None False (-1)
     = Inr (ImageFolder ''/data/train'' demo_T demo_train, ImageFolder ''/data/val'' demo_T demo_val)"
proof -
  have t: "image_tree (demo_world 0) ''/data/train'' = Some demo_train"
    "image_tree (demo_world 0) ''/data/val'' = Some demo_val"
    by (simp_all add: demo_world_def demo_tree_def)
  have p: "default_path (demo_world 0) (Some ''/data/train'') = ''/data/train''"
    "default_path (demo_world 0) (Some ''/data/val'') = ''/data/val''"
    by (simp_all add: default_path_def)
  have m: "''custom'' \<in> {''imagenet'', ''imagenet100'', ''custom'', ''imagenet32''}" by simp
  have n: "\<not> (0::real) < -1" by simp
  show ?thesis
    using C9_folder_branch[OF m, of "demo_world 0" demo_T demo_T "''/data/train''" "''/data/val''"
        True False demo_split "Some ''/data/train''" "Some ''/data/val''" None "-1"]
      C9_folder_branch[OF m, of "demo_world 0" demo_T demo_T "''/data/train''" "''/data/val''"
        False True demo_split "Some ''/data/train''" "Some ''/data/val''" None "-1"] t p n
    by simp
qed


text \<open>
  Claim C10, as it is written, fails: the training dataset is constructed before its
  attribute \<open>samples\<close> is read. With the name \<open>cifar10\<close>, \<open>data_fraction = 1/2\<close> and no
  archive to load, the call ends with the error of the library, not with an attribute
  error.
\<close>

theorem C10_archive_datasets_have_no_samples_counterexample:
  "prepare_datasets demo_split offline_world ''cifar10'' demo_T demo_T None None None True (1/2)
     = Inl (LibraryError ''CIFAR'')"
  by (simp add: prepare_datasets_def recognized_names_def construct_datasets_def
      cifar_names_def upper_cifar getitem_def torchvision_datasets_def new_CIFAR_def
      offline_world_def)

text \<open>
  Claim C10, amended. With a name among \<open>cifar10\<close>, \<open>cifar100\<close>, \<open>stl10\<close> and
  \<open>data_fraction\<close> in (0, 1) the call never returns datasets: it fails with the error the
  library raised when the construction of the two datasets failed, and with the attribute
  error on \<open>samples\<close> whenever the two datasets were constructed. A call with
  \<open>data_fraction\<close> in (0, 1) that returns datasets has a folder-per-class name.
\<close>

theorem C10_archive_datasets_have_no_samples:
  assumes "0 < f" and "f < 1"
  shows "(d \<in> {''cifar10'', ''cifar100'', ''stl10''} \<longrightarrow>
            isl (prepare_datasets sk w d Tt Tv tp vp fmt dl f)
            \<and> (\<forall>e. construct_datasets w d Tt Tv (default_path w tp) (default_path w vp) dl
                          = Inl e \<longrightarrow>
                 prepare_datasets sk w d Tt Tv tp vp fmt dl f = Inl e)
            \<and> (\<forall>tr va. construct_datasets w d Tt Tv (default_path w tp) (default_path w vp) dl
                          = Inr (tr, va) \<longrightarrow>
                 prepare_datasets sk w d Tt Tv tp vp fmt dl f = Inl (AttributeError ''samples'')))
         \<and> (\<forall>r. prepare_datasets sk w d Tt Tv tp vp fmt dl f = Inr r \<longrightarrow>
               d \<in> {''imagenet'', ''imagenet100'', ''custom'', ''imagenet32''})"
proof -
  have a: "isl (prepare_datasets sk w d Tt Tv tp vp fmt dl f)"
    if "d \<in> {''cifar10'', ''cifar100'', ''stl10''}"
    using prepare_datasets_archive_fraction(1)[OF that assms] .
  have b: "prepare_datasets sk w d Tt Tv tp vp fmt dl f = Inl (AttributeError ''samples'')"
    if "d \<in> {''cifar10'', ''cifar100'', ''stl10''}"
      and "construct_datasets w d Tt Tv (default_path w tp) (default_path w vp) dl = Inr (tr, va)"
    for tr va
    using prepare_datasets_archive_fraction(2)[OF that(1) assms that(2)] .
  have c: "d \<in> {''imagenet'', ''imagenet100'', ''custom'', ''imagenet32''}"
    if "prepare_datasets sk w d Tt Tv tp vp fmt dl f = Inr r" for r
    using prepare_datasets_fraction_Inr_folder[OF assms that] by (simp add: folder_names_set)
  have e: "prepare_datasets sk w d Tt Tv tp vp fmt dl f = Inl e"
    if "d \<in> {''cifar10'', ''cifar100'', ''stl10''}"
      and "construct_datasets w d Tt Tv (default_path w tp) (default_path w vp) dl = Inl e"
    for e
    using prepare_datasets_construct_fails[OF archive_names_recognized[OF that(1)] that(2)] .
  show ?thesis using a b c e by blast
qed

theorem C10_archive_datasets_have_no_samples_witness:
  "prepare_datasets demo_split (demo_world 0) ''cifar10'' demo_T demo_T None None None True (1/2)
     = Inl (AttributeError ''samples'')"
proof -
  have c: "construct_datasets (demo_world 0) ''cifar10'' demo_T demo_T
             (default_path (demo_world 0) None) (default_path (demo_world 0) None) True
           = Inr (CIFAR CIFAR10 ''/repo/datasets'' True True demo_T,
                  CIFAR CIFAR10 ''/repo/datasets'' False True demo_T)"
    by code_simp
  have f: "(0::real) < 1/2" "(1/2::real) < 1" by simp_all
  show ?thesis
    using C10_archive_datasets_have_no_samples[OF f, of "''cifar10''" demo_split "demo_world 0"
        demo_T demo_T None None None True] c
    by simp
qed


text \<open>
  Claim C4. Whatever \<open>data_fraction\<close> is, the validation dataset a call returns is the
  object that was constructed from the validation path, with the sample list and the size
  it had at construction (for a folder-per-class name, the list \<open>ImageFolder\<close> found
  under the validation path); every other value of \<open>data_fraction\<close> for which the call
  returns gives the same validation dataset.
\<close>

theorem C4_validation_never_subsampled:
  assumes "prepare_datasets sk w d Tt Tv tp vp fmt dl f = Inr (tr, va)"
  shows "(\<exists>tr0. construct_datasets w d Tt Tv (default_path w tp) (default_path w vp) dl
                  = Inr (tr0, va))
         \<and> (d \<in> {''imagenet'', ''imagenet100'', ''custom'', ''imagenet32''} \<longrightarrow>
              image_tree w (default_path w vp) = Some (samples_of va))
         \<and> (\<forall>f' tr' va'. prepare_datasets sk w d Tt Tv tp vp fmt dl f' = Inr (tr', va')
               \<longrightarrow> va' = va \<and> samples_of va' = samples_of va
                   \<and> length (samples_of va') = length (samples_of va))"
proof -
  from prepare_datasets_Inr_construct(2)[OF assms] obtain tr0 where
    c: "construct_datasets w d Tt Tv (default_path w tp) (default_path w vp) dl = Inr (tr0, va)"
    by blast
  have same: "va' = va" if "prepare_datasets sk w d Tt Tv tp vp fmt dl f' = Inr (tr', va')"
    for f' tr' va'
    using prepare_datasets_Inr_construct(2)[OF that] c by auto
  have tree: "image_tree w (default_path w vp) = Some (samples_of va)"
    if "d \<in> {''imagenet'', ''imagenet100'', ''custom'', ''imagenet32''}"
  proof -
    have "d \<in> set folder_names" using that by (simp add: folder_names_set)
    from construct_datasets_folder[OF this, of w Tt Tv "default_path w tp" "default_path w vp" dl] c
    show ?thesis by (auto split: option.splits)
  qed
  from c same tree show ?thesis by blast
qed

theorem C4_validation_never_subsampled_witness:
  "snd (projr (prepare_datasets demo_split (demo_world 0) ''imagenet'' demo_T demo_T
        (Some ''/data/train'') (Some ''/data/val'') None True (1/2)))
     = ImageFolder ''/data/val'' demo_T demo_val
   \<and> snd (projr (prepare_datasets demo_split (demo_world 0) ''imagenet'' demo_T demo_T
        (Some ''/data/train'') (Some ''/data/val'') None True (-1)))
     = ImageFolder ''/data/val'' demo_T demo_val
   \<and> image_tree (demo_world 0) (default_path (demo_world 0) (Some ''/data/val'')) = Some demo_val"
proof -
  have h: "prepare_datasets demo_split (demo_world 0) ''imagenet'' demo_T demo_T
        (Some ''/data/train'') (Some ''/data/val'') None True (1/2)
      = Inr (ImageFolder ''/data/train'' demo_T [(''a/1.png'', 0), (''b/1.png'', 1)],
             ImageFolder ''/data/val'' demo_T demo_val)"
    by code_simp
  have a: "prepare_datasets demo_split (demo_world 0) ''imagenet'' demo_T demo_T
        (Some ''/data/train'') (Some ''/data/val'') None True (-1)
      = Inr (ImageFolder ''/data/train'' demo_T demo_train,
             ImageFolder ''/data/val'' demo_T demo_val)"
    by code_simp
  note inst = C4_validation_never_subsampled[OF h]
  note tree = inst[THEN conjunct2, THEN conjunct1]
  note same = inst[THEN conjunct2, THEN conjunct2, rule_format, OF a]
  have "image_tree (demo_world 0) (default_path (demo_world 0) (Some ''/data/val''))
          = Some (samples_of (ImageFolder ''/data/val'' demo_T demo_val))"
    using tree by simp
  then show ?thesis using same a h by simp
qed

text \<open>
  Claim C5. The result of the builder does not depend on the state of the global random
  generator: the split is drawn from a generator freshly seeded with 42. Two calls with
  the same name, the same training data and the same \<open>data_fraction\<close> in (0, 1) that
  both return give the same training sample list.
\<close>

theorem C5_subsample_deterministic:
  "prepare_datasets sk (w\<lparr>global_rng := g\<rparr>) d Tt Tv tp vp fmt dl f
     = prepare_datasets sk w d Tt Tv tp vp fmt dl f
   \<and> (0 < f \<longrightarrow> f < 1 \<longrightarrow>
        image_tree w1 (default_path w1 tp1) = image_tree w2 (default_path w2 tp2) \<longrightarrow>
        prepare_datasets sk w1 d Tt1 Tv1 tp1 vp1 fmt1 dl1 f = Inr (tr1, va1) \<longrightarrow>
        prepare_datasets sk w2 d Tt2 Tv2 tp2 vp2 fmt2 dl2 f = Inr (tr2, va2) \<longrightarrow>
        samples_of tr1 = samples_of tr2)"
proof -
  have two: "samples_of tr1 = samples_of tr2"
    if f: "0 < f" "f < 1"
      and t: "image_tree w1 (default_path w1 tp1) = image_tree w2 (default_path w2 tp2)"
      and r1: "prepare_datasets sk w1 d Tt1 Tv1 tp1 vp1 fmt1 dl1 f = Inr (tr1, va1)"
      and r2: "prepare_datasets sk w2 d Tt2 Tv2 tp2 vp2 fmt2 dl2 f = Inr (tr2, va2)"
  proof -
    from prepare_datasets_folder_fraction_Inr[OF f r1] obtain data train test where
      a: "image_tree w1 (default_path w1 tp1) = Some data"
        "sk (RandomState 42) (length data) f (map snd data) = Some (train, test)"
        "tr1 = ImageFolder (default_path w1 tp1) Tt1 (map ((!) data) train)"
      by blast
    from prepare_datasets_folder_fraction_Inr[OF f r2] obtain data' train' test' where
      b: "image_tree w2 (default_path w2 tp2) = Some data'"
        "sk (RandomState 42) (length data') f (map snd data') = Some (train', test')"
        "tr2 = ImageFolder (default_path w2 tp2) Tt2 (map ((!) data') train')"
      by blast
    from a(1) b(1) t have "data' = data" by simp
    with a(2) b(2) have "train' = train" by simp
    with a(3) b(3) \<open>data' = data\<close> show ?thesis by simp
  qed
  show ?thesis using prepare_datasets_global_rng[where sk=sk and w=w and g=g] two by blast
qed

theorem C5_subsample_deterministic_witness:
  "prepare_datasets demo_split (demo_world 7) ''imagenet'' demo_T demo_T
       (Some ''/data/train'') (Some ''/data/val'') None True (3/10)
     = prepare_datasets demo_split (demo_world 0) ''imagenet'' demo_T demo_T
       (Some ''/data/train'') (Some ''/data/val'') None True (3/10)
   \<and> samples_of (fst (projr (prepare_datasets demo_split (demo_world 7) ''imagenet'' demo_T demo_T
       (Some ''/data/train'') (Some ''/data/val'') None False (3/10)))) = [(''a/1.png'', 0)]"
proof -
  have w: "demo_world 7 = (demo_world 0)\<lparr>global_rng := 7\<rparr>"
    by (simp add: demo_world_def)
  have f: "(0::real) < 3/10" "(3/10::real) < 1" by simp_all
  have t: "image_tree (demo_world 0) (default_path (demo_world 0) (Some ''/data/train''))
         = image_tree (demo_world 7) (default_path (demo_world 7) (Some ''/data/train''))"
    by (simp add: demo_world_def default_path_def)
  have r1: "prepare_datasets demo_split (demo_world 0) ''imagenet'' demo_T demo_T
       (Some ''/data/train'') (Some ''/data/val'') None True (3/10)
     = Inr (ImageFolder ''/data/train'' demo_T [(''a/1.png'', 0)],
            ImageFolder ''/data/val'' demo_T demo_val)"
    by code_simp
  have r2: "prepare_datasets demo_split (demo_world 7) ''imagenet'' demo_T demo_T
       (Some ''/data/train'') (Some ''/data/val'') None False (3/10)
     = Inr (ImageFolder ''/data/train'' demo_T [(''a/1.png'', 0)],
            ImageFolder ''/data/val'' demo_T demo_val)"
    by code_simp
  note inst = C5_subsample_deterministic[where sk=demo_split and w="demo_world 0" and g=7
      and d="''imagenet''" and Tt=demo_T and Tv=demo_T and tp="Some ''/data/train''"
      and vp="Some ''/data/val''" and fmt=None and dl=True and f="3/10"
      and ?w1.0="demo_world 0" and ?tp1.0="Some ''/data/train''"
      and ?w2.0="demo_world 7" and ?tp2.0="Some ''/data/train''"]
  note one = inst[THEN conjunct1, folded w]
  note two = inst[THEN conjunct2, rule_format, OF f t r1 r2]
  show ?thesis using one two r2 by simp
qed




end
